theory Spec2Isabelle
  imports Main "HOL-Library.Word"
begin

section \<open>JavaScript values\<close>

text \<open>
  A JavaScript string is a sequence of UTF-16 code units; the bytes behind a
  \<^verbatim>\<open>DataView\<close> or a \<^verbatim>\<open>Uint8Array\<close> are a list of octets. A string literal of the
  source that is plain ASCII is written \<open>lit ''...''\<close>.
\<close>

type_synonym code_unit = "16 word"
type_synonym jsstring = "code_unit list"
type_synonym bytes = "8 word list"

definition lit :: "string \<Rightarrow> jsstring" where
  "lit s = map of_char s"

text \<open>
  A property of an object is missing (\<^verbatim>\<open>undefined\<close>), \<^verbatim>\<open>null\<close>, or holds a value.
\<close>

datatype 'a js = Undefined | Null | Val 'a

text \<open>
  Truthiness of a string-valued property: \<^verbatim>\<open>undefined\<close>, \<^verbatim>\<open>null\<close> and the empty
  string are falsy. A property that holds an object (a \<^verbatim>\<open>DataView\<close>, a controller)
  is truthy exactly when it is neither \<^verbatim>\<open>undefined\<close> nor \<^verbatim>\<open>null\<close>, so a test
  \<^verbatim>\<open>if (object)\<close> is a case distinction on \<open>Val\<close>.
\<close>

fun truthy_string :: "jsstring js \<Rightarrow> bool" where
  "truthy_string (Val s) = (s \<noteq> [])"
| "truthy_string _ = False"

text \<open>The idiom \<^verbatim>\<open>x || null\<close> on a string-valued property.\<close>

definition or_null :: "jsstring js \<Rightarrow> jsstring js" where
  "or_null x = (if truthy_string x then x else Null)"

text \<open>A thrown value: the name of the error and its \<^verbatim>\<open>message\<close>.\<close>

datatype js_error = JsError (error_name: jsstring) (error_message: jsstring)

definition RangeError :: js_error where
  "RangeError = JsError (lit ''RangeError'') (lit ''Offset is outside the bounds of the DataView'')"

definition ReferenceError :: js_error where
  "ReferenceError = JsError (lit ''ReferenceError'') (lit ''NDEFReader is not defined'')"

text \<open>\<^verbatim>\<open>try { body } catch { handler }\<close>: the handler sees every throw of the body.\<close>

definition try_catch :: "js_error + 'a \<Rightarrow> (js_error \<Rightarrow> js_error + 'a) \<Rightarrow> js_error + 'a" where
  "try_catch body handler = (case body of Inl e \<Rightarrow> handler e | Inr v \<Rightarrow> Inr v)"

text \<open>
  \<^verbatim>\<open>Array.prototype.map\<close> and \<^verbatim>\<open>Array.from\<close> with a callback that may throw: the
  elements are visited from left to right and the first throw ends the call.
\<close>

fun map_result :: "('a \<Rightarrow> js_error + 'b) \<Rightarrow> 'a list \<Rightarrow> js_error + 'b list" where
  "map_result f [] = Inr []"
| "map_result f (x # xs) =
     (case f x of
        Inl e \<Rightarrow> Inl e
      | Inr y \<Rightarrow> (case map_result f xs of Inl e \<Rightarrow> Inl e | Inr ys \<Rightarrow> Inr (y # ys)))"

section \<open>String and number primitives used by the utilities\<close>

text \<open>
  \<^verbatim>\<open>Number.prototype.toString(radix)\<close> on a non-negative integer, for a radix from
  2 to 36: digits \<open>0-9\<close>, then \<open>a-z\<close>. The template literal \<^verbatim>\<open>`${n}`\<close> is the call
  with radix 10. The source calls it with 16 and 10 only; a radix below 2, which
  JavaScript rejects, is cut off so that the recursion ends.
\<close>

definition digit_code :: "nat \<Rightarrow> nat" where
  "digit_code d = (if d < 10 then 48 + d else 87 + d)"

definition digit_char :: "nat \<Rightarrow> code_unit" where
  "digit_char d = of_nat (digit_code d)"

function number_toString :: "nat \<Rightarrow> nat \<Rightarrow> jsstring" where
  "number_toString radix n =
     (if radix < 2 \<or> n < radix then [digit_char n]
      else number_toString radix (n div radix) @ [digit_char (n mod radix)])"
  by pat_completeness auto
termination
  by (relation "measure snd") auto

declare number_toString.simps [simp del]

text \<open>
  \<^verbatim>\<open>String.prototype.padStart(targetLength, padString)\<close>: the pad string is repeated
  and cut to the missing length.
\<close>

definition padStart :: "nat \<Rightarrow> jsstring \<Rightarrow> jsstring \<Rightarrow> jsstring" where
  "padStart target pad s =
     (if target \<le> length s \<or> pad = [] then s
      else take (target - length s) (concat (replicate (target - length s) pad)) @ s)"

text \<open>\<^verbatim>\<open>Array.prototype.join(separator)\<close> on an array of strings.\<close>

fun join :: "jsstring \<Rightarrow> jsstring list \<Rightarrow> jsstring" where
  "join sep [] = []"
| "join sep [s] = s"
| "join sep (s # t # ts) = s @ sep @ join sep (t # ts)"

text \<open>
  \<^verbatim>\<open>String.prototype.toUpperCase\<close> on the Basic Latin block, where it maps \<open>a-z\<close>
  to \<open>A-Z\<close> and leaves every other code unit alone. \<open>dataViewToHex\<close> applies it to
  hexadecimal digits and colons only (lemma \<open>hex_parts\<close> below).
\<close>

definition upper_unit :: "code_unit \<Rightarrow> code_unit" where
  "upper_unit c = (if 97 \<le> unat c \<and> unat c \<le> 122 then of_nat (unat c - 32) else c)"

definition toUpperCase :: "jsstring \<Rightarrow> jsstring" where
  "toUpperCase s = map upper_unit s"

text \<open>\<^verbatim>\<open>String.prototype.startsWith\<close>.\<close>

definition startsWith :: "jsstring \<Rightarrow> jsstring \<Rightarrow> bool" where
  "startsWith s p = (take (length p) s = p)"

section \<open>Utilities module\<close>

text \<open>
  \<^verbatim>\<open>view.getUint8(i)\<close> throws a RangeError outside the view; \<^verbatim>\<open>view.byteLength\<close>
  is the number of octets.
\<close>

definition byteLength :: "bytes \<Rightarrow> nat" where
  "byteLength view = length view"

definition getUint8 :: "bytes \<Rightarrow> nat \<Rightarrow> js_error + nat" where
  "getUint8 view i = (if i < byteLength view then Inr (unat (view ! i)) else Inl RangeError)"

text \<open>
  \<open>hex_pair view\<close> is the callback of \<^verbatim>\<open>Array.from\<close> in \<open>dataViewToHex\<close>, which is
  called on the indices below \<^verbatim>\<open>view.byteLength\<close>.
\<close>

definition hex_pair :: "bytes \<Rightarrow> nat \<Rightarrow> js_error + jsstring" where
  "hex_pair view i =
     (case getUint8 view i of
        Inl e \<Rightarrow> Inl e
      | Inr b \<Rightarrow> Inr (padStart 2 (lit ''0'') (number_toString 16 b)))"

definition dataViewToHex :: "bytes \<Rightarrow> js_error + jsstring" where
  "dataViewToHex view =
     (case map_result (hex_pair view) [0..<byteLength view] of
        Inl e \<Rightarrow> Inl e
      | Inr parts \<Rightarrow> Inr (toUpperCase (join (lit '':'') parts)))"

subsection \<open>Records, messages and the platform\<close>

text \<open>
  A record read from a tag has a record type, a media type, an id and a \<^verbatim>\<open>DataView\<close>
  as data; a decoded record has a payload in place of the data; a record to write has
  a string or a \<^verbatim>\<open>Uint8Array\<close> as data. A message is its list of records.
\<close>

record record_head =
  recordType :: jsstring
  mediaType :: "jsstring js"
  record_id :: "jsstring js"

record 'd ndef_record = record_head +
  data :: "'d js"

record decoded_record = record_head +
  payload :: "jsstring js"

record 'r ndef_message =
  records :: "'r list"

datatype write_data = StringData jsstring | BufferData bytes

type_synonym tag_record = "bytes ndef_record"
type_synonym write_message = "write_data ndef_record ndef_message"

text \<open>
  An \<^verbatim>\<open>AbortController\<close>: \<^verbatim>\<open>abort()\<close> marks the signal and fires its abort event, once;
  on an aborted signal it returns at once.
\<close>

record abort_controller =
  aborted :: bool
  abort_events :: nat

definition abort :: "abort_controller \<Rightarrow> abort_controller" where
  "abort c = (if aborted c then c else c\<lparr>aborted := True, abort_events := abort_events c + 1\<rparr>)"

text \<open>
  The platform: whether \<^verbatim>\<open>NDEFReader\<close> exists, \<^verbatim>\<open>new TextEncoder().encode\<close>,
  \<^verbatim>\<open>new TextDecoder().decode\<close>, and how the reader answers \<^verbatim>\<open>write\<close> and \<^verbatim>\<open>scan\<close>.
  None of it is code of the application, so it is a parameter of every operation.
  \<open>None\<close> is a promise that resolves, \<open>Some e\<close> one that rejects with \<open>e\<close>; the answer
  to a write may depend on the writes made before.
\<close>

record platform =
  has_NDEFReader :: bool
  text_encode :: "jsstring \<Rightarrow> bytes"
  text_decode :: "bytes \<Rightarrow> js_error + jsstring"
  ndef_write :: "write_message list \<Rightarrow> write_message \<Rightarrow> js_error option"
  ndef_scan :: "abort_controller \<Rightarrow> js_error option"

definition hasWebNFC :: "platform \<Rightarrow> bool" where
  "hasWebNFC p = has_NDEFReader p"

subsection \<open>decodeRecord\<close>

text \<open>
  The parts of \<open>decodeRecord\<close>, in the order of the source: the condition of the inner
  \<^verbatim>\<open>if\<close>, the body of the \<^verbatim>\<open>try\<close> block, the string of the \<^verbatim>\<open>catch\<close> block, the
  statement \<^verbatim>\<open>if (record.data) try ... catch ...\<close> that sets \<^verbatim>\<open>payload\<close>, and the function
  with its returned object.
\<close>

definition is_text_record :: "tag_record \<Rightarrow> bool" where
  "is_text_record r =
     (recordType r = lit ''text'' \<or> recordType r = lit ''url'' \<or>
      (truthy_string (mediaType r) \<and>
       (case mediaType r of Val m \<Rightarrow> startsWith m (lit ''text/'') | _ \<Rightarrow> False)))"

definition decode_body :: "platform \<Rightarrow> tag_record \<Rightarrow> bytes \<Rightarrow> js_error + jsstring" where
  "decode_body p r view =
     (if is_text_record r then text_decode p view
      else (case dataViewToHex view of
              Inl e \<Rightarrow> Inl e
            | Inr h \<Rightarrow> Inr (lit ''[Hex] '' @ h)))"

definition binary_fallback :: "bytes \<Rightarrow> jsstring" where
  "binary_fallback view =
     lit ''[Binary Data: '' @ number_toString 10 (byteLength view) @ lit '' bytes]''"

definition decode_payload :: "platform \<Rightarrow> tag_record \<Rightarrow> js_error + jsstring js" where
  "decode_payload p r =
     (case data r of
        Val view \<Rightarrow>
          (case try_catch (decode_body p r view) (\<lambda>_. Inr (binary_fallback view)) of
             Inl e \<Rightarrow> Inl e
           | Inr s \<Rightarrow> Inr (Val s))
      | _ \<Rightarrow> Inr Undefined)"

definition decodeRecord :: "platform \<Rightarrow> tag_record \<Rightarrow> js_error + decoded_record" where
  "decodeRecord p r =
     (case decode_payload p r of
        Inl e \<Rightarrow> Inl e
      | Inr pl \<Rightarrow>
          Inr \<lparr>recordType = recordType r,
               mediaType = or_null (mediaType r),
               record_id = or_null (record_id r),
               payload = pl\<rparr>)"

section \<open>NFC module\<close>

text \<open>
  What the operations of the module act on: the messages handed to
  \<^verbatim>\<open>NDEFReader.write\<close> so far (oldest first), and the parts of the page the handlers
  touch: the record-authoring inputs, the status line, the log (newest card first, a
  card being its heading and the logged message) and the errors sent to the console.
\<close>

record app =
  nfc_writes :: "write_message list"
  ui_recordType :: jsstring
  ui_payload :: jsstring
  ui_mimeType :: jsstring
  status_text :: jsstring
  status_color :: jsstring
  log_cards :: "(jsstring \<times> write_message) list"
  console_errors :: "js_error list"

definition writer_write :: "platform \<Rightarrow> write_message \<Rightarrow> app \<Rightarrow> (js_error + unit) \<times> app" where
  "writer_write p message w =
     ((case ndef_write p (nfc_writes w) message of None \<Rightarrow> Inr () | Some e \<Rightarrow> Inl e),
      w\<lparr>nfc_writes := nfc_writes w @ [message]\<rparr>)"

text \<open>A parameter declared \<^verbatim>\<open>mimeType = null\<close>: the default replaces \<^verbatim>\<open>undefined\<close> only.\<close>

definition default_null :: "'a js \<Rightarrow> 'a js" where
  "default_null x = (case x of Undefined \<Rightarrow> Null | _ \<Rightarrow> x)"

text \<open>
  The \<^verbatim>\<open>if\<close>/\<^verbatim>\<open>else\<close> chain of \<open>writeNfc\<close> that builds the message, then the function:
  the reader is constructed first, which throws where \<^verbatim>\<open>NDEFReader\<close> does not exist.
\<close>

definition build_message :: "platform \<Rightarrow> jsstring \<Rightarrow> jsstring \<Rightarrow> jsstring js \<Rightarrow> write_message" where
  "build_message p rtype pl mimeType =
     (if rtype = lit ''mime'' then
        \<lparr>records = [\<lparr>recordType = lit ''mime'', mediaType = mimeType, record_id = Undefined,
                      data = Val (BufferData (text_encode p pl))\<rparr>]\<rparr>
      else if rtype = lit ''unknown'' then
        \<lparr>records = [\<lparr>recordType = rtype, mediaType = Undefined, record_id = Undefined,
                      data = Val (BufferData (text_encode p pl))\<rparr>]\<rparr>
      else
        \<lparr>records = [\<lparr>recordType = rtype, mediaType = Undefined, record_id = Undefined,
                      data = Val (StringData pl)\<rparr>]\<rparr>)"

definition writeNfc ::
  "platform \<Rightarrow> jsstring \<Rightarrow> jsstring \<Rightarrow> jsstring js \<Rightarrow> app \<Rightarrow> (js_error + write_message) \<times> app" where
  "writeNfc p rtype pl mimeType w =
     (if \<not> has_NDEFReader p then (Inl ReferenceError, w)
      else
        let message = build_message p rtype pl (default_null mimeType) in
        (case writer_write p message w of
           (Inl e, w') \<Rightarrow> (Inl e, w')
         | (Inr _, w') \<Rightarrow> (Inr message, w')))"

text \<open>The message literal of \<open>writeMultiDemo\<close>, then the function.\<close>

definition demo_message :: "platform \<Rightarrow> write_message" where
  "demo_message p =
     \<lparr>records =
        [\<lparr>recordType = lit ''text'', mediaType = Undefined, record_id = Undefined,
          data = Val (StringData (lit ''Hello from Web NFC '' @ [0xD83D, 0xDC4B]))\<rparr>,
         \<lparr>recordType = lit ''url'', mediaType = Undefined, record_id = Undefined,
          data = Val (StringData (lit ''https://developer.mozilla.org/docs/Web/API/Web_NFC_API''))\<rparr>,
         \<lparr>recordType = lit ''mime'', mediaType = Val (lit ''text/plain''), record_id = Undefined,
          data = Val (BufferData (text_encode p (lit ''sample mime payload'')))\<rparr>]\<rparr>"

definition writeMultiDemo :: "platform \<Rightarrow> app \<Rightarrow> (js_error + write_message) \<times> app" where
  "writeMultiDemo p w =
     (if \<not> has_NDEFReader p then (Inl ReferenceError, w)
      else
        let message = demo_message p in
        (case writer_write p message w of
           (Inl e, w') \<Rightarrow> (Inl e, w')
         | (Inr _, w') \<Rightarrow> (Inr message, w')))"

subsection \<open>stopScan\<close>

text \<open>\<^verbatim>\<open>if (controller) controller.abort()\<close>; the function returns the handle as it is afterwards.\<close>

definition stopScan :: "abort_controller js \<Rightarrow> js_error + abort_controller js" where
  "stopScan controller =
     (case controller of
        Val c \<Rightarrow> Inr (Val (abort c))
      | _ \<Rightarrow> Inr controller)"

subsection \<open>startScan\<close>

text \<open>
  A reading event of the platform: the message, the serial number, and the event's
  target, whose \<^verbatim>\<open>tech\<close> is read with \<^verbatim>\<open>event.target?.tech\<close>. A message may
  carry fields beside \<^verbatim>\<open>records\<close>; the spread \<^verbatim>\<open>{...message, records: ...}\<close> keeps
  them, and they are the extension part of the record here.
\<close>

record event_target =
  tech :: "jsstring js"

record 'z reading_event =
  message :: "(tag_record, 'z) ndef_message_scheme"
  serialNumber :: "jsstring js"
  target :: "event_target js"

datatype 'z nfc_event = Reading "'z reading_event" | ReadingError

definition target_tech :: "'z reading_event \<Rightarrow> jsstring js" where
  "target_tech event = (case target event of Val t \<Rightarrow> tech t | _ \<Rightarrow> Undefined)"

text \<open>
  The state an active scan acts on: the lines sent to the console, the errors that
  escaped a handler (the platform reports them and goes on), and the state of the
  caller's \<^verbatim>\<open>onReading\<close> callback.
\<close>

record 's scan_state =
  console_lines :: "jsstring list"
  uncaught :: "js_error list"
  sink :: 's

type_synonym ('z, 's) on_reading =
  "(decoded_record, 'z) ndef_message_scheme \<Rightarrow> jsstring js \<Rightarrow> jsstring js \<Rightarrow> 's \<Rightarrow> 's"

record ('z, 's) ndef_reader =
  onreadingerror :: "'s scan_state \<Rightarrow> js_error + 's scan_state"
  onreading :: "'z reading_event \<Rightarrow> 's scan_state \<Rightarrow> js_error + 's scan_state"

definition readingerror_handler :: "'s scan_state \<Rightarrow> js_error + 's scan_state" where
  "readingerror_handler st =
     Inr (st\<lparr>console_lines :=
            console_lines st @ [lit ''Cannot read data from the NFC tag. Try another one?'']\<rparr>)"

definition reading_handler ::
  "platform \<Rightarrow> ('z, 's) on_reading \<Rightarrow> 'z reading_event \<Rightarrow> 's scan_state \<Rightarrow> js_error + 's scan_state" where
  "reading_handler p onReading event st =
     (case map_result (decodeRecord p) (records (message event)) of
        Inl e \<Rightarrow> Inl e
      | Inr decodedRecords \<Rightarrow>
          Inr (st\<lparr>sink :=
                 onReading \<lparr>records = decodedRecords, \<dots> = ndef_message.more (message event)\<rparr>
                   (serialNumber event) (target_tech event) (sink st)\<rparr>))"

definition startScan ::
  "platform \<Rightarrow> abort_controller \<Rightarrow> ('z, 's) on_reading \<Rightarrow> js_error + ('z, 's) ndef_reader" where
  "startScan p signal onReading =
     (if \<not> has_NDEFReader p then Inl ReferenceError
      else (case ndef_scan p signal of
              Some e \<Rightarrow> Inl e
            | None \<Rightarrow>
                Inr \<lparr>onreadingerror = readingerror_handler,
                     onreading = reading_handler p onReading\<rparr>))"

text \<open>
  The platform raising one event, and a sequence of events, on the reader of an active
  scan. A throw of a handler is reported and does not stop later events.
\<close>

definition dispatch :: "('z, 's) ndef_reader \<Rightarrow> 'z nfc_event \<Rightarrow> 's scan_state \<Rightarrow> 's scan_state" where
  "dispatch ndef ev st =
     (case (case ev of Reading event \<Rightarrow> onreading ndef event st
                     | ReadingError \<Rightarrow> onreadingerror ndef st) of
        Inl e \<Rightarrow> st\<lparr>uncaught := uncaught st @ [e]\<rparr>
      | Inr st' \<Rightarrow> st')"

fun deliver :: "('z, 's) ndef_reader \<Rightarrow> 'z nfc_event list \<Rightarrow> 's scan_state \<Rightarrow> 's scan_state" where
  "deliver ndef [] st = st"
| "deliver ndef (ev # evs) st = deliver ndef evs (dispatch ndef ev st)"

section \<open>Main application logic: handleWrite\<close>

text \<open>
  \<^verbatim>\<open>String.prototype.trim\<close> removes white space and line terminators from both ends.
\<close>

definition is_white_space :: "code_unit \<Rightarrow> bool" where
  "is_white_space c =
     (let n = unat c in
      (9 \<le> n \<and> n \<le> 13) \<or> n = 32 \<or> n = 160 \<or> n = 5760 \<or> (8192 \<le> n \<and> n \<le> 8202) \<or>
      n = 8232 \<or> n = 8233 \<or> n = 8239 \<or> n = 8287 \<or> n = 12288 \<or> n = 65279)"

definition trim :: "jsstring \<Rightarrow> jsstring" where
  "trim s = rev (dropWhile is_white_space (rev (dropWhile is_white_space s)))"

definition setStatus :: "jsstring \<Rightarrow> jsstring \<Rightarrow> app \<Rightarrow> app" where
  "setStatus text tone w =
     w\<lparr>status_text := text,
       status_color := lit ''var(--'' @ (if tone = lit ''info'' then lit ''text'' else tone) @ lit '')''\<rparr>"

definition appendLog :: "write_message \<Rightarrow> jsstring \<Rightarrow> app \<Rightarrow> app" where
  "appendLog obj heading w = w\<lparr>log_cards := (heading, obj) # log_cards w\<rparr>"

definition console_error :: "js_error \<Rightarrow> app \<Rightarrow> app" where
  "console_error err w = w\<lparr>console_errors := console_errors w @ [err]\<rparr>"

definition handleWrite :: "platform \<Rightarrow> app \<Rightarrow> app" where
  "handleWrite p w =
     (let type = ui_recordType w;
          pl = ui_payload w;
          mimeType = trim (ui_mimeType w)
      in
        if type = lit ''mime'' \<and> mimeType = [] then
          setStatus (lit ''Please provide a MIME type for this record.'') (lit ''warn'') w
        else
          (case writeNfc p type pl (Val mimeType) w of
             (Inr msg, w') \<Rightarrow>
               appendLog msg (lit ''Wrote Message'')
                 (setStatus (lit ''Write succeeded '' @ [0x2714, 0xFE0F]) (lit ''ok'') w')
           | (Inl err, w') \<Rightarrow>
               setStatus (if error_message err \<noteq> [] then error_message err else lit ''Write failed'')
                 (lit ''err'') (console_error err w')))"

section \<open>Reading a hex dump back\<close>

text \<open>
  The inverse the specification describes for \<open>dataViewToHex\<close>: split the string at the
  colons and read each piece as two hexadecimal digits. The empty string holds no
  pair. \<open>upper_hex_pair\<close> is the pair of upper-case digits of one octet.
\<close>

definition hex_value :: "code_unit \<Rightarrow> nat option" where
  "hex_value c =
     (let n = unat c in
      if 48 \<le> n \<and> n \<le> 57 then Some (n - 48)
      else if 65 \<le> n \<and> n \<le> 70 then Some (n - 55)
      else if 97 \<le> n \<and> n \<le> 102 then Some (n - 87)
      else None)"

fun parse_pair :: "jsstring \<Rightarrow> 8 word option" where
  "parse_pair [a, b] =
     (case (hex_value a, hex_value b) of
        (Some h, Some l) \<Rightarrow> Some (of_nat (16 * h + l))
      | _ \<Rightarrow> None)"
| "parse_pair _ = None"

fun split_on :: "code_unit \<Rightarrow> jsstring \<Rightarrow> jsstring list" where
  "split_on sep [] = [[]]"
| "split_on sep (c # cs) =
     (if c = sep then [] # split_on sep cs
      else (case split_on sep cs of [] \<Rightarrow> [[c]] | q # qs \<Rightarrow> (c # q) # qs))"

definition parse_hex :: "jsstring \<Rightarrow> bytes option" where
  "parse_hex s = (if s = [] then Some [] else those (map parse_pair (split_on 58 s)))"

definition upper_hex_code :: "nat \<Rightarrow> nat" where
  "upper_hex_code d = (if d < 10 then 48 + d else 55 + d)"

definition upper_hex_digit :: "nat \<Rightarrow> code_unit" where
  "upper_hex_digit d = of_nat (upper_hex_code d)"

definition upper_hex_pair :: "8 word \<Rightarrow> jsstring" where
  "upper_hex_pair b = [upper_hex_digit (unat b div 16), upper_hex_digit (unat b mod 16)]"

section \<open>The decoding policy in closed form\<close>

text \<open>
  The policy of the specification, first match wins: a text-like record is decoded as
  text, any other record is dumped in hexadecimal behind the marker \<open>[Hex] \<close>, and a
  decoding that throws gives the string that names the byte length. A record without
  data has no payload.
\<close>

definition codec_payload :: "platform \<Rightarrow> tag_record \<Rightarrow> jsstring js" where
  "codec_payload p r =
     (case data r of
        Val view \<Rightarrow>
          Val (if is_text_record r
               then (case text_decode p view of Inr s \<Rightarrow> s | Inl _ \<Rightarrow> binary_fallback view)
               else lit ''[Hex] '' @ join (lit '':'') (map upper_hex_pair view))
      | _ \<Rightarrow> Undefined)"

definition codec_decode :: "platform \<Rightarrow> tag_record \<Rightarrow> decoded_record" where
  "codec_decode p r =
     \<lparr>recordType = recordType r,
      mediaType = or_null (mediaType r),
      record_id = or_null (record_id r),
      payload = codec_payload p r\<rparr>"

section \<open>The text decoder of the platform\<close>

text \<open>
  \<open>decodeRecord\<close> constructs its decoder with \<^verbatim>\<open>new TextDecoder()\<close>: UTF-8, not fatal,
  byte order mark removed. Such a decoder never throws; every malformed sequence is
  replaced by U+FFFD. \<open>utf8_code_points\<close> is the decoder of the Encoding Standard run
  over the octets: the code point collected so far, the continuation bytes still
  needed, and the lower and upper boundary of the next byte. A byte outside the
  boundaries ends the sequence with U+FFFD and is read again as a first byte.
\<close>

fun utf8_code_points :: "nat \<Rightarrow> nat \<Rightarrow> nat \<Rightarrow> nat \<Rightarrow> nat list \<Rightarrow> nat list" where
  "utf8_code_points cp 0 lo hi [] = []"
| "utf8_code_points cp (Suc k) lo hi [] = [65533]"
| "utf8_code_points cp 0 lo hi (b # bs) =
     (if b \<le> 127 then b # utf8_code_points 0 0 128 191 bs
      else if 194 \<le> b \<and> b \<le> 223 then utf8_code_points (b mod 32) (Suc 0) 128 191 bs
      else if 224 \<le> b \<and> b \<le> 239 then
        utf8_code_points (b mod 16) (Suc (Suc 0))
          (if b = 224 then 160 else 128) (if b = 237 then 159 else 191) bs
      else if 240 \<le> b \<and> b \<le> 244 then
        utf8_code_points (b mod 8) (Suc (Suc (Suc 0)))
          (if b = 240 then 144 else 128) (if b = 244 then 143 else 191) bs
      else 65533 # utf8_code_points 0 0 128 191 bs)"
| "utf8_code_points cp (Suc k) lo hi (b # bs) =
     (if b < lo \<or> hi < b then 65533 # utf8_code_points 0 0 128 191 (b # bs)
      else if k = 0 then (cp * 64 + b mod 64) # utf8_code_points 0 0 128 191 bs
      else utf8_code_points (cp * 64 + b mod 64) k 128 191 bs)"

text \<open>A leading byte order mark is dropped; a code point becomes one or two code units.\<close>

fun strip_bom :: "nat list \<Rightarrow> nat list" where
  "strip_bom [] = []"
| "strip_bom (c # cs) = (if c = 65279 then cs else c # cs)"

definition utf16_units :: "nat \<Rightarrow> jsstring" where
  "utf16_units c =
     (if c < 65536 then [of_nat c]
      else [of_nat (55296 + (c - 65536) div 1024), of_nat (56320 + (c - 65536) mod 1024)])"

definition TextDecoder_decode :: "bytes \<Rightarrow> js_error + jsstring" where
  "TextDecoder_decode view =
     Inr (concat (map utf16_units (strip_bom (utf8_code_points 0 0 128 191 (map unat view)))))"

section \<open>A platform to run the model on\<close>

text \<open>
  A concrete platform for evaluating the operations: the reader exists and accepts
  every scan and every write, the encoder is UTF-8 on seven-bit text, and the decoder
  is the one that \<^verbatim>\<open>new TextDecoder()\<close> constructs.
\<close>

definition ascii_encode :: "jsstring \<Rightarrow> bytes" where
  "ascii_encode s = map ucast s"

definition sample_platform :: platform where
  "sample_platform =
     \<lparr>has_NDEFReader = True,
      text_encode = ascii_encode,
      text_decode = TextDecoder_decode,
      ndef_write = (\<lambda>_ _. None),
      ndef_scan = (\<lambda>_. None)\<rparr>"

text \<open>The page before anything was written, and a callback that records its calls.\<close>

definition empty_app :: app where
  "empty_app =
     \<lparr>nfc_writes = [], ui_recordType = [], ui_payload = [], ui_mimeType = [],
      status_text = [], status_color = [], log_cards = [], console_errors = []\<rparr>"

definition record_call ::
  "('z, ((decoded_record, 'z) ndef_message_scheme \<times> jsstring js \<times> jsstring js) list) on_reading" where
  "record_call msg serial technology calls = calls @ [(msg, serial, technology)]"

section \<open>Properties of the hex dump\<close>

lemma unat_code_unit: "n < 65536 \<Longrightarrow> unat (of_nat n :: code_unit) = n"
  by (simp add: unat_of_nat)

lemma unat_digit_char: "d < 36 \<Longrightarrow> unat (digit_char d) = digit_code d"
  unfolding digit_char_def by (rule unat_code_unit) (simp add: digit_code_def)

lemma unat_upper_hex_digit: "d < 16 \<Longrightarrow> unat (upper_hex_digit d) = upper_hex_code d"
  unfolding upper_hex_digit_def by (rule unat_code_unit) (simp add: upper_hex_code_def)

lemma upper_digit_char: "d < 16 \<Longrightarrow> upper_unit (digit_char d) = upper_hex_digit d"
  by (simp add: upper_unit_def unat_digit_char)
     (simp add: digit_char_def upper_hex_digit_def digit_code_def upper_hex_code_def)

lemma hex_value_upper: "d < 16 \<Longrightarrow> hex_value (upper_hex_digit d) = Some d"
  by (simp add: hex_value_def unat_upper_hex_digit Let_def upper_hex_code_def)

lemma nat_below_16:
  "(d::nat) < 16 \<Longrightarrow> d = 0 \<or> d = 1 \<or> d = 2 \<or> d = 3 \<or> d = 4 \<or> d = 5 \<or> d = 6 \<or> d = 7 \<or>
     d = 8 \<or> d = 9 \<or> d = 10 \<or> d = 11 \<or> d = 12 \<or> d = 13 \<or> d = 14 \<or> d = 15"
  by arith

lemma upper_hex_digit_range:
  "d < 16 \<Longrightarrow> upper_hex_digit d \<in> set (lit ''0123456789ABCDEF'')"
  by (drule nat_below_16) (auto simp: upper_hex_digit_def upper_hex_code_def lit_def)

lemma upper_hex_digit_not_colon: "d < 16 \<Longrightarrow> upper_hex_digit d \<noteq> 58"
proof
  assume d: "d < 16" and "upper_hex_digit d = 58"
  then have "unat (upper_hex_digit d) = 58" by simp
  with d show False by (simp add: unat_upper_hex_digit upper_hex_code_def split: if_splits)
qed

lemma number_toString_16:
  assumes "b < 256"
  shows "number_toString 16 b =
     (if b < 16 then [digit_char b] else [digit_char (b div 16), digit_char (b mod 16)])"
proof (cases "b < 16")
  case True
  then show ?thesis by (simp add: number_toString.simps)
next
  case False
  with assms have "b div 16 < 16" by arith
  with False show ?thesis
    by (simp add: number_toString.simps [of 16 b] number_toString.simps [of 16 "b div 16"])
qed

lemma digit_char_0: "digit_char 0 = 48"
  by (simp add: digit_char_def digit_code_def)

lemma padStart_hex:
  "b < 256 \<Longrightarrow>
   padStart 2 (lit ''0'') (number_toString 16 b) = [digit_char (b div 16), digit_char (b mod 16)]"
  by (simp add: number_toString_16 padStart_def lit_def digit_char_0)

lemma unat_byte_bounds: "unat (b :: 8 word) < 256" "unat b div 16 < 16" "unat b mod 16 < 16"
proof -
  show "unat b < 256" using unsigned_less [of b] by simp
  then show "unat b div 16 < 16" by arith
  show "unat b mod 16 < 16" by simp
qed

lemma map_result_total:
  "(\<And>x. x \<in> set xs \<Longrightarrow> f x = Inr (g x)) \<Longrightarrow> map_result f xs = Inr (map g xs)"
  by (induction xs) simp_all

lemma hex_pair_in_range:
  "i < length view \<Longrightarrow>
   hex_pair view i = Inr [digit_char (unat (view ! i) div 16), digit_char (unat (view ! i) mod 16)]"
  by (simp add: hex_pair_def getUint8_def byteLength_def padStart_hex unat_byte_bounds)

lemma hex_parts:
  "map_result (hex_pair view) [0..<byteLength view] =
     Inr (map (\<lambda>b. [digit_char (unat b div 16), digit_char (unat b mod 16)]) view)"
proof -
  have "map_result (hex_pair view) [0..<length view] =
          Inr (map (\<lambda>i. [digit_char (unat (view ! i) div 16), digit_char (unat (view ! i) mod 16)])
                 [0..<length view])"
    by (rule map_result_total) (simp add: hex_pair_in_range)
  also have "map (\<lambda>i. [digit_char (unat (view ! i) div 16), digit_char (unat (view ! i) mod 16)])
                 [0..<length view]
             = map (\<lambda>b. [digit_char (unat b div 16), digit_char (unat b mod 16)]) view"
    by (rule nth_equalityI) simp_all
  finally show ?thesis by (simp add: byteLength_def)
qed

lemma upper_unit_colon: "upper_unit 58 = 58"
  by (simp add: upper_unit_def)

lemma toUpperCase_join:
  "toUpperCase (join (lit '':'') parts) = join (lit '':'') (map toUpperCase parts)"
  by (induction "lit '':''" parts rule: join.induct)
     (simp_all add: toUpperCase_def lit_def upper_unit_colon)

lemma toUpperCase_pair:
  "toUpperCase [digit_char (unat (b :: 8 word) div 16), digit_char (unat b mod 16)] = upper_hex_pair b"
  by (simp add: toUpperCase_def upper_hex_pair_def upper_digit_char unat_byte_bounds)

lemma dataViewToHex_closed:
  "dataViewToHex view = Inr (join (lit '':'') (map upper_hex_pair view))"
  by (simp add: dataViewToHex_def hex_parts toUpperCase_join toUpperCase_pair o_def)

lemma length_join_pairs:
  "length (join (lit '':'') (map upper_hex_pair B)) = 3 * length B - 1"
  by (induction B rule: induct_list012) (simp_all add: upper_hex_pair_def lit_def)

lemma set_upper_hex_pair: "set (upper_hex_pair b) \<subseteq> set (lit ''0123456789ABCDEF'')"
  by (simp add: upper_hex_pair_def upper_hex_digit_range unat_byte_bounds)

lemma set_join_pairs:
  "set (join (lit '':'') (map upper_hex_pair B)) \<subseteq> set (lit ''0123456789ABCDEF:'')"
proof (induction B rule: induct_list012)
  case 1
  show ?case by simp
next
  case (2 b)
  have "set (lit ''0123456789ABCDEF'') \<subseteq> set (lit ''0123456789ABCDEF:'')"
    by (simp add: lit_def subset_iff)
  with set_upper_hex_pair [of b] show ?case by auto
next
  case (3 b c B)
  have "set (lit ''0123456789ABCDEF'') \<subseteq> set (lit ''0123456789ABCDEF:'')"
    by (simp add: lit_def subset_iff)
  moreover have "set (lit '':'') \<subseteq> set (lit ''0123456789ABCDEF:'')"
    by (simp add: lit_def)
  ultimately show ?case using set_upper_hex_pair [of b] 3 by auto
qed

lemma parse_upper_hex_pair: "parse_pair (upper_hex_pair b) = Some b"
proof -
  have "(of_nat (16 * (unat b div 16) + unat b mod 16) :: 8 word) = b"
    by simp
  then show ?thesis
    by (simp add: upper_hex_pair_def hex_value_upper unat_byte_bounds)
qed

lemma colon_not_in_pair: "58 \<notin> set (upper_hex_pair b)"
  using upper_hex_digit_not_colon [of "unat b div 16"] upper_hex_digit_not_colon [of "unat b mod 16"]
  by (auto simp: upper_hex_pair_def unat_byte_bounds)

lemma split_on_no_sep: "sep \<notin> set s \<Longrightarrow> split_on sep s = [s]"
  by (induction s) auto

lemma split_on_append: "sep \<notin> set s \<Longrightarrow> split_on sep (s @ sep # t) = s # split_on sep t"
  by (induction s) auto

lemma split_join_pairs:
  "B \<noteq> [] \<Longrightarrow> split_on 58 (join (lit '':'') (map upper_hex_pair B)) = map upper_hex_pair B"
proof (induction B rule: induct_list012)
  case 1
  then show ?case by simp
next
  case (2 b)
  show ?case by (simp add: split_on_no_sep colon_not_in_pair)
next
  case (3 b c B)
  have "lit '':'' = [58]" by (simp add: lit_def)
  with 3 show ?case by (simp add: split_on_append colon_not_in_pair)
qed

lemma those_map_Some: "those (map Some xs) = Some xs"
  by (induction xs) simp_all

lemma join_pairs_empty: "join (lit '':'') (map upper_hex_pair B) = [] \<longleftrightarrow> B = []"
  by (induction B rule: induct_list012) (simp_all add: upper_hex_pair_def)

lemma parse_hex_join_pairs: "parse_hex (join (lit '':'') (map upper_hex_pair B)) = Some B"
proof (cases "B = []")
  case True
  then show ?thesis by (simp add: parse_hex_def)
next
  case False
  have "map parse_pair (map upper_hex_pair B) = map Some B"
    by (simp add: parse_upper_hex_pair)
  with False show ?thesis
    by (simp add: parse_hex_def join_pairs_empty split_join_pairs those_map_Some del: map_map)
qed

text \<open>
  Claim C3. For every byte sequence \<open>B\<close>, \<open>dataViewToHex B\<close> returns a string of length
  \<open>3 * length B - 1\<close> (0 for the empty sequence) that holds only upper-case
  hexadecimal digits and colons, is one zero-padded pair of digits per byte with a colon
  between neighbours, and reads back as \<open>B\<close> when it is split at the colons and every
  pair is parsed as a hexadecimal number. For a sequence that is not empty the pieces
  of the split are exactly the pairs, one per byte.
\<close>

theorem dataViewToHex_format_roundtrip:
  "\<exists>s. dataViewToHex B = Inr s
     \<and> length s = (if B = [] then 0 else 3 * length B - 1)
     \<and> set s \<subseteq> set (lit ''0123456789ABCDEF:'')
     \<and> s = join (lit '':'') (map upper_hex_pair B)
     \<and> parse_hex s = Some B
     \<and> (B \<noteq> [] \<longrightarrow> map parse_pair (split_on 58 s) = map Some B)"
proof -
  have "map parse_pair (split_on 58 (join (lit '':'') (map upper_hex_pair B))) = map Some B"
    if "B \<noteq> []"
    using that by (simp add: split_join_pairs parse_upper_hex_pair)
  then show ?thesis
    by (simp add: dataViewToHex_closed length_join_pairs set_join_pairs parse_hex_join_pairs)
qed

theorem dataViewToHex_format_roundtrip_witness:
  "dataViewToHex [0x0A, 0xFF] = Inr (lit ''0A:FF'')
     \<and> length (lit ''0A:FF'') = 5
     \<and> parse_hex (lit ''0A:FF'') = Some [0x0A, 0xFF]"
  using dataViewToHex_format_roundtrip [of "[0x0A, 0xFF]"]
  by (auto simp: upper_hex_pair_def upper_hex_digit_def upper_hex_code_def lit_def)

section \<open>Properties of decodeRecord\<close>

lemma decode_payload_codec: "decode_payload p r = Inr (codec_payload p r)"
  by (cases "data r")
     (simp_all add: decode_payload_def codec_payload_def try_catch_def decode_body_def
        dataViewToHex_closed split: sum.splits)

lemma decodeRecord_codec: "decodeRecord p r = Inr (codec_decode p r)"
  by (simp add: decodeRecord_def decode_payload_codec codec_decode_def)

lemma is_text_record_iff:
  "is_text_record r \<longleftrightarrow>
     recordType r = lit ''text'' \<or> recordType r = lit ''url'' \<or>
     (\<exists>m. mediaType r = Val m \<and> startsWith m (lit ''text/''))"
  by (cases "mediaType r") (auto simp: is_text_record_def startsWith_def lit_def)

lemma TextDecoder_decode_returns: "\<exists>s. TextDecoder_decode view = Inr s"
  by (simp add: TextDecoder_decode_def)

lemma decode_body_never_throws:
  "text_decode p = TextDecoder_decode \<Longrightarrow> decode_body p r view \<noteq> Inl e"
  by (simp add: decode_body_def TextDecoder_decode_def dataViewToHex_closed)

lemma decodeRecord_total:
  "\<exists>d. decodeRecord p r = Inr d
     \<and> recordType d = recordType r \<and> mediaType d \<noteq> Undefined \<and> record_id d \<noteq> Undefined"
  by (auto simp: decodeRecord_codec codec_decode_def or_null_def)

text \<open>
  Claim C2. \<open>decodeRecord\<close> never throws (lemma \<open>decodeRecord_total\<close>), but a decoding
  failure under the text-like policy does not end in the fallback string. The decoder
  that the function constructs is not fatal, so the \<^verbatim>\<open>catch\<close> block is not reached
  (lemma \<open>decode_body_never_throws\<close>): for the text record whose data is the single
  malformed octet \<open>0xFF\<close> the payload is the replacement character U+FFFD, not
  \<open>[Binary Data: 1 bytes]\<close>.
\<close>

theorem decodeRecord_malformed_utf8_payload:
  "decodeRecord sample_platform
       \<lparr>recordType = lit ''text'', mediaType = Null, record_id = Null, data = Val [0xFF]\<rparr>
     = Inr \<lparr>recordType = lit ''text'', mediaType = Null, record_id = Null,
            payload = Val [0xFFFD]\<rparr>
   \<and> binary_fallback [0xFF] = lit ''[Binary Data: 1 bytes]''
   \<and> [0xFFFD] \<noteq> lit ''[Binary Data: 1 bytes]''"
proof -
  have "text_decode sample_platform [0xFF] = Inr [0xFFFD]"
    by (simp add: sample_platform_def TextDecoder_decode_def utf16_units_def)
  then have "decodeRecord sample_platform
       \<lparr>recordType = lit ''text'', mediaType = Null, record_id = Null, data = Val [0xFF]\<rparr>
     = Inr \<lparr>recordType = lit ''text'', mediaType = Null, record_id = Null,
            payload = Val [0xFFFD]\<rparr>"
    by (simp add: decodeRecord_def decode_payload_def try_catch_def decode_body_def
          is_text_record_def or_null_def)
  moreover have "binary_fallback [0xFF] = lit ''[Binary Data: 1 bytes]''"
    by (simp add: binary_fallback_def byteLength_def number_toString.simps digit_char_def
          digit_code_def lit_def)
  moreover have "[0xFFFD] \<noteq> lit ''[Binary Data: 1 bytes]''"
    by (simp add: lit_def)
  ultimately show ?thesis by simp
qed

text \<open>
  Claim C4. For a tag record with data present whose record type is \<open>text\<close> or \<open>url\<close>,
  or whose media type begins with \<open>text/\<close>, and whose data the text decoder accepts,
  the payload of the decoded record is the decoded text.
\<close>

theorem decodeRecord_text_payload:
  assumes "data r = Val view"
    and "recordType r = lit ''text'' \<or> recordType r = lit ''url'' \<or>
         (\<exists>m. mediaType r = Val m \<and> startsWith m (lit ''text/''))"
    and "text_decode p view = Inr s"
  shows "\<exists>d. decodeRecord p r = Inr d \<and> payload d = Val s"
proof -
  from assms(2) have "is_text_record r"
    by (simp add: is_text_record_iff)
  with assms(1,3) have "codec_payload p r = Val s"
    by (simp add: codec_payload_def)
  then show ?thesis
    by (simp add: decodeRecord_codec codec_decode_def)
qed

theorem decodeRecord_text_payload_witness:
  "decodeRecord sample_platform
     \<lparr>recordType = lit ''mime'', mediaType = Val (lit ''text/plain''), record_id = Null,
      data = Val [0x48, 0x69]\<rparr>
   = Inr \<lparr>recordType = lit ''mime'', mediaType = Val (lit ''text/plain''), record_id = Null,
          payload = Val (lit ''Hi'')\<rparr>"
proof -
  let ?r = "\<lparr>recordType = lit ''mime'', mediaType = Val (lit ''text/plain''), record_id = Null,
      data = Val [0x48, 0x69]\<rparr> :: tag_record"
  have h1: "data ?r = Val [0x48, 0x69]"
    by simp
  have h2: "recordType ?r = lit ''text'' \<or> recordType ?r = lit ''url'' \<or>
         (\<exists>m. mediaType ?r = Val m \<and> startsWith m (lit ''text/''))"
    by (simp add: startsWith_def lit_def)
  have h3: "text_decode sample_platform [0x48, 0x69] = Inr (lit ''Hi'')"
    by (simp add: sample_platform_def TextDecoder_decode_def utf16_units_def lit_def)
  from decodeRecord_text_payload [OF h1 h2 h3]
  obtain d where d: "decodeRecord sample_platform ?r = Inr d" and pl: "payload d = Val (lit ''Hi'')"
    by blast
  from d have "recordType d = lit ''mime''" "mediaType d = Val (lit ''text/plain'')"
    "record_id d = Null"
    by (auto simp add: decodeRecord_codec codec_decode_def or_null_def lit_def)
  with pl have "d = \<lparr>recordType = lit ''mime'', mediaType = Val (lit ''text/plain''),
      record_id = Null, payload = Val (lit ''Hi'')\<rparr>"
    by (cases d) simp
  with d show ?thesis by simp
qed

text \<open>
  Claim C5. For a tag record with data present whose record type is neither \<open>text\<close>
  nor \<open>url\<close> and whose media type does not begin with \<open>text/\<close>, the payload of the
  decoded record is the marker \<open>[Hex] \<close> followed by the string that \<open>dataViewToHex\<close>
  returns for the data.
\<close>

theorem decodeRecord_hex_payload:
  assumes "data r = Val view"
    and "recordType r \<noteq> lit ''text''"
    and "recordType r \<noteq> lit ''url''"
    and "\<not> (\<exists>m. mediaType r = Val m \<and> startsWith m (lit ''text/''))"
  shows "\<exists>d h. decodeRecord p r = Inr d \<and> dataViewToHex view = Inr h
           \<and> payload d = Val (lit ''[Hex] '' @ h)"
proof -
  from assms(2-4) have "\<not> is_text_record r"
    by (simp add: is_text_record_iff)
  with assms(1) have "codec_payload p r = Val (lit ''[Hex] '' @ join (lit '':'') (map upper_hex_pair view))"
    by (simp add: codec_payload_def)
  then show ?thesis
    by (simp add: decodeRecord_codec codec_decode_def dataViewToHex_closed)
qed

theorem decodeRecord_hex_payload_witness:
  "decodeRecord sample_platform
     \<lparr>recordType = lit ''mime'', mediaType = Val (lit ''application/octet-stream''),
      record_id = Null, data = Val [0x0A, 0xFF]\<rparr>
   = Inr \<lparr>recordType = lit ''mime'', mediaType = Val (lit ''application/octet-stream''),
          record_id = Null, payload = Val (lit ''[Hex] 0A:FF'')\<rparr>"
proof -
  let ?r = "\<lparr>recordType = lit ''mime'', mediaType = Val (lit ''application/octet-stream''),
      record_id = Null, data = Val [0x0A, 0xFF]\<rparr> :: tag_record"
  have h1: "data ?r = Val [0x0A, 0xFF]"
    by simp
  have h2: "recordType ?r \<noteq> lit ''text''" and h3: "recordType ?r \<noteq> lit ''url''"
    by (simp_all add: lit_def)
  have h4: "\<not> (\<exists>m. mediaType ?r = Val m \<and> startsWith m (lit ''text/''))"
    by (simp add: startsWith_def lit_def)
  have hex: "dataViewToHex [0x0A, 0xFF] = Inr (lit ''0A:FF'')"
    by (simp add: dataViewToHex_closed upper_hex_pair_def upper_hex_digit_def upper_hex_code_def
          lit_def)
  from decodeRecord_hex_payload [OF h1 h2 h3 h4, of sample_platform]
  obtain d h where d: "decodeRecord sample_platform ?r = Inr d"
    and h: "dataViewToHex [0x0A, 0xFF] = Inr h" and pl: "payload d = Val (lit ''[Hex] '' @ h)"
    by blast
  from h hex pl have pl': "payload d = Val (lit ''[Hex] 0A:FF'')"
    by (simp add: lit_def)
  from d have "recordType d = lit ''mime''"
    "mediaType d = Val (lit ''application/octet-stream'')" "record_id d = Null"
    by (auto simp add: decodeRecord_codec codec_decode_def or_null_def lit_def)
  with pl' have "d = \<lparr>recordType = lit ''mime'',
      mediaType = Val (lit ''application/octet-stream''), record_id = Null,
      payload = Val (lit ''[Hex] 0A:FF'')\<rparr>"
    by (cases d) simp
  with d show ?thesis by simp
qed

lemma is_text_record_mediaType_absent:
  "\<not> truthy_string (mediaType r) \<Longrightarrow> \<not> truthy_string x \<Longrightarrow>
   is_text_record (r\<lparr>mediaType := x\<rparr>) = is_text_record r"
  by (simp add: is_text_record_def)

lemma is_text_record_record_id: "is_text_record (r\<lparr>record_id := x\<rparr>) = is_text_record r"
  by (simp add: is_text_record_def)

lemma codec_decode_mediaType_absent:
  "\<not> truthy_string (mediaType r) \<Longrightarrow> \<not> truthy_string x \<Longrightarrow>
   codec_decode p (r\<lparr>mediaType := x\<rparr>) = codec_decode p r"
  by (simp add: codec_decode_def codec_payload_def is_text_record_mediaType_absent or_null_def
        split: js.splits)

lemma codec_decode_record_id_absent:
  "\<not> truthy_string (record_id r) \<Longrightarrow> \<not> truthy_string x \<Longrightarrow>
   codec_decode p (r\<lparr>record_id := x\<rparr>) = codec_decode p r"
  by (simp add: codec_decode_def codec_payload_def is_text_record_record_id or_null_def
        split: js.splits)

text \<open>
  Claim C6, as amended. \<open>decodeRecord\<close> copies the record type unchanged; it passes a
  media type and an id that are non-empty strings through as they are and gives
  \<open>null\<close> for each that is missing, \<open>null\<close> or the empty string; and for a record
  whose data is absent the payload is left undefined.
\<close>

theorem decodeRecord_fields:
  "\<exists>d. decodeRecord p r = Inr d
     \<and> recordType d = recordType r
     \<and> mediaType d = (case mediaType r of Val m \<Rightarrow> if m = [] then Null else Val m | _ \<Rightarrow> Null)
     \<and> record_id d = (case record_id r of Val i \<Rightarrow> if i = [] then Null else Val i | _ \<Rightarrow> Null)
     \<and> ((\<forall>view. data r \<noteq> Val view) \<longrightarrow> payload d = Undefined)"
proof -
  have "mediaType (codec_decode p r) =
          (case mediaType r of Val m \<Rightarrow> if m = [] then Null else Val m | _ \<Rightarrow> Null)"
    by (cases "mediaType r") (simp_all add: codec_decode_def or_null_def)
  moreover have "record_id (codec_decode p r) =
          (case record_id r of Val i \<Rightarrow> if i = [] then Null else Val i | _ \<Rightarrow> Null)"
    by (cases "record_id r") (simp_all add: codec_decode_def or_null_def)
  moreover have "(\<forall>view. data r \<noteq> Val view) \<longrightarrow> payload (codec_decode p r) = Undefined"
    by (cases "data r") (simp_all add: codec_decode_def codec_payload_def)
  moreover have "recordType (codec_decode p r) = recordType r"
    by (simp add: codec_decode_def)
  ultimately show ?thesis
    by (simp add: decodeRecord_codec)
qed

theorem decodeRecord_fields_witness:
  "decodeRecord sample_platform
     \<lparr>recordType = lit ''empty'', mediaType = Val (lit ''text/plain''), record_id = Undefined,
      data = Undefined\<rparr>
   = Inr \<lparr>recordType = lit ''empty'', mediaType = Val (lit ''text/plain''), record_id = Null,
          payload = Undefined\<rparr>"
proof -
  let ?r = "\<lparr>recordType = lit ''empty'', mediaType = Val (lit ''text/plain''),
      record_id = Undefined, data = Undefined\<rparr> :: tag_record"
  from decodeRecord_fields [of sample_platform ?r]
  obtain d where d: "decodeRecord sample_platform ?r = Inr d"
    and "recordType d = recordType ?r"
    and "mediaType d = (case mediaType ?r of Val m \<Rightarrow> if m = [] then Null else Val m | _ \<Rightarrow> Null)"
    and "record_id d = (case record_id ?r of Val i \<Rightarrow> if i = [] then Null else Val i | _ \<Rightarrow> Null)"
    and "(\<forall>view. data ?r \<noteq> Val view) \<longrightarrow> payload d = Undefined"
    by blast
  then have "d = \<lparr>recordType = lit ''empty'', mediaType = Val (lit ''text/plain''),
      record_id = Null, payload = Undefined\<rparr>"
    by (cases d) (simp add: lit_def)
  with d show ?thesis by simp
qed

text \<open>
  The claim as it was stated fails on a record whose media type and id are present and
  empty: both come out as \<open>null\<close>, not as the empty strings that went in.
\<close>

theorem decodeRecord_passthrough_counterexample:
  "decodeRecord sample_platform
     \<lparr>recordType = lit ''mime'', mediaType = Val [], record_id = Val [], data = Undefined\<rparr>
   = Inr \<lparr>recordType = lit ''mime'', mediaType = Null, record_id = Null, payload = Undefined\<rparr>
   \<and> (Null :: jsstring js) \<noteq> Val []"
  by (simp add: decodeRecord_codec codec_decode_def codec_payload_def or_null_def)

text \<open>
  Claim C10. A media type or an id that is present and equal to the empty string comes
  out as \<open>null\<close>, and the decoded record is the one obtained when the field is missing
  or \<open>null\<close> on the input.
\<close>

theorem decodeRecord_empty_field_null:
  "(mediaType r = Val [] \<longrightarrow>
      (\<exists>d. decodeRecord p r = Inr d \<and> mediaType d = Null
         \<and> decodeRecord p (r\<lparr>mediaType := Undefined\<rparr>) = Inr d
         \<and> decodeRecord p (r\<lparr>mediaType := Null\<rparr>) = Inr d))
   \<and> (record_id r = Val [] \<longrightarrow>
      (\<exists>d. decodeRecord p r = Inr d \<and> record_id d = Null
         \<and> decodeRecord p (r\<lparr>record_id := Undefined\<rparr>) = Inr d
         \<and> decodeRecord p (r\<lparr>record_id := Null\<rparr>) = Inr d))"
  by (simp add: decodeRecord_codec codec_decode_mediaType_absent codec_decode_record_id_absent)
     (simp add: codec_decode_def or_null_def)

theorem decodeRecord_empty_field_null_witness:
  "decodeRecord sample_platform
     \<lparr>recordType = lit ''unknown'', mediaType = Val [], record_id = Val [], data = Val [0x01]\<rparr>
   = Inr \<lparr>recordType = lit ''unknown'', mediaType = Null, record_id = Null,
          payload = Val (lit ''[Hex] 01'')\<rparr>
   \<and> decodeRecord sample_platform
     \<lparr>recordType = lit ''unknown'', mediaType = Undefined, record_id = Val [], data = Val [0x01]\<rparr>
   = Inr \<lparr>recordType = lit ''unknown'', mediaType = Null, record_id = Null,
          payload = Val (lit ''[Hex] 01'')\<rparr>"
proof -
  let ?r = "\<lparr>recordType = lit ''unknown'', mediaType = Val [], record_id = Val [],
      data = Val [0x01]\<rparr> :: tag_record"
  have h: "mediaType ?r = Val []"
    by simp
  from decodeRecord_empty_field_null [of ?r sample_platform] h
  obtain d where d: "decodeRecord sample_platform ?r = Inr d"
    and u: "decodeRecord sample_platform (?r\<lparr>mediaType := Undefined\<rparr>) = Inr d"
    by blast
  have "decodeRecord sample_platform ?r
      = Inr \<lparr>recordType = lit ''unknown'', mediaType = Null, record_id = Null,
          payload = Val (lit ''[Hex] 01'')\<rparr>"
    by (simp add: decodeRecord_codec codec_decode_def codec_payload_def or_null_def
          is_text_record_def upper_hex_pair_def upper_hex_digit_def upper_hex_code_def lit_def)
  with d u show ?thesis by simp
qed

section \<open>Properties of the NFC module\<close>

lemma writer_write_result:
  "writer_write p m w =
     ((case ndef_write p (nfc_writes w) m of None \<Rightarrow> Inr () | Some e \<Rightarrow> Inl e),
      w\<lparr>nfc_writes := nfc_writes w @ [m]\<rparr>)"
  by (simp add: writer_write_def)

lemma writeNfc_result:
  "has_NDEFReader p \<Longrightarrow>
   writeNfc p rtype pl mt w =
     ((case ndef_write p (nfc_writes w) (build_message p rtype pl (default_null mt)) of
         None \<Rightarrow> Inr (build_message p rtype pl (default_null mt))
       | Some e \<Rightarrow> Inl e),
      w\<lparr>nfc_writes := nfc_writes w @ [build_message p rtype pl (default_null mt)]\<rparr>)"
  by (simp add: writeNfc_def writer_write_def Let_def split: option.splits)

lemma writeMultiDemo_result:
  "has_NDEFReader p \<Longrightarrow>
   writeMultiDemo p w =
     ((case ndef_write p (nfc_writes w) (demo_message p) of
         None \<Rightarrow> Inr (demo_message p)
       | Some e \<Rightarrow> Inl e),
      w\<lparr>nfc_writes := nfc_writes w @ [demo_message p]\<rparr>)"
  by (simp add: writeMultiDemo_def writer_write_def Let_def split: option.splits)

text \<open>
  Claim C1, as amended. \<open>writeNfc\<close> does not validate the media type. On a platform
  that has the reader, every call \<open>writeNfc("mime", payload, mediaType)\<close>, also one
  whose media type is missing or the empty string, hands the platform writer one
  message of one \<open>mime\<close> record that carries the media type as given (\<open>null\<close> when it
  is missing) and the encoded payload, and resolves with that message or rejects with
  the error of the writer. The check is made by the caller: \<open>handleWrite\<close>, when the
  record type is \<open>mime\<close> and the trimmed media type is empty, shows a warning and
  returns with no call of the platform writer.
\<close>

theorem writeNfc_mime_unchecked:
  "(has_NDEFReader p \<longrightarrow>
      writeNfc p (lit ''mime'') pl mt w =
        ((case ndef_write p (nfc_writes w)
                 \<lparr>records = [\<lparr>recordType = lit ''mime'', mediaType = default_null mt,
                               record_id = Undefined,
                               data = Val (BufferData (text_encode p pl))\<rparr>]\<rparr> of
            None \<Rightarrow> Inr \<lparr>records = [\<lparr>recordType = lit ''mime'', mediaType = default_null mt,
                               record_id = Undefined,
                               data = Val (BufferData (text_encode p pl))\<rparr>]\<rparr>
          | Some e \<Rightarrow> Inl e),
         w\<lparr>nfc_writes := nfc_writes w @
             [\<lparr>records = [\<lparr>recordType = lit ''mime'', mediaType = default_null mt,
                               record_id = Undefined,
                               data = Val (BufferData (text_encode p pl))\<rparr>]\<rparr>]\<rparr>))
   \<and> (ui_recordType w = lit ''mime'' \<and> trim (ui_mimeType w) = [] \<longrightarrow>
        handleWrite p w =
          w\<lparr>status_text := lit ''Please provide a MIME type for this record.'',
            status_color := lit ''var(--warn)''\<rparr>
        \<and> nfc_writes (handleWrite p w) = nfc_writes w)"
proof -
  have "lit ''var(--'' @ lit ''warn'' @ lit '')'' = lit ''var(--warn)''"
    by (simp add: lit_def)
  moreover have "lit ''warn'' \<noteq> lit ''info''"
    by (simp add: lit_def)
  ultimately show ?thesis
    by (simp add: writeNfc_result build_message_def handleWrite_def setStatus_def Let_def
          split: option.splits)
qed

theorem writeNfc_mime_unchecked_witness:
  "writeNfc sample_platform (lit ''mime'') (lit ''hi'') Undefined empty_app =
     (Inr \<lparr>records = [\<lparr>recordType = lit ''mime'', mediaType = Null, record_id = Undefined,
                        data = Val (BufferData [0x68, 0x69])\<rparr>]\<rparr>,
      empty_app\<lparr>nfc_writes :=
         [\<lparr>records = [\<lparr>recordType = lit ''mime'', mediaType = Null, record_id = Undefined,
                        data = Val (BufferData [0x68, 0x69])\<rparr>]\<rparr>]\<rparr>)
   \<and> handleWrite sample_platform
        (empty_app\<lparr>ui_recordType := lit ''mime'', ui_payload := lit ''hi'', ui_mimeType := lit ''  ''\<rparr>)
      = empty_app\<lparr>ui_recordType := lit ''mime'', ui_payload := lit ''hi'', ui_mimeType := lit ''  '',
          status_text := lit ''Please provide a MIME type for this record.'',
          status_color := lit ''var(--warn)''\<rparr>"
proof -
  let ?w = "empty_app\<lparr>ui_recordType := lit ''mime'', ui_payload := lit ''hi'',
              ui_mimeType := lit ''  ''\<rparr>"
  have h1: "has_NDEFReader sample_platform"
    by (simp add: sample_platform_def)
  have h2: "ui_recordType ?w = lit ''mime'' \<and> trim (ui_mimeType ?w) = []"
    by (simp add: trim_def is_white_space_def lit_def)
  have enc: "text_encode sample_platform (lit ''hi'') = [0x68, 0x69]"
    by (simp add: sample_platform_def ascii_encode_def lit_def)
  have acc: "ndef_write sample_platform ws m = None" for ws m
    by (simp add: sample_platform_def)
  from writeNfc_mime_unchecked
      [where p = sample_platform and pl = "lit ''hi''" and mt = Undefined and w = empty_app] h1
  have "writeNfc sample_platform (lit ''mime'') (lit ''hi'') Undefined empty_app =
     (Inr \<lparr>records = [\<lparr>recordType = lit ''mime'', mediaType = Null, record_id = Undefined,
                        data = Val (BufferData [0x68, 0x69])\<rparr>]\<rparr>,
      empty_app\<lparr>nfc_writes :=
         [\<lparr>records = [\<lparr>recordType = lit ''mime'', mediaType = Null, record_id = Undefined,
                        data = Val (BufferData [0x68, 0x69])\<rparr>]\<rparr>]\<rparr>)"
    by (simp add: enc acc default_null_def empty_app_def)
  moreover from writeNfc_mime_unchecked [where p = sample_platform and w = ?w] h2
  have "handleWrite sample_platform ?w =
          ?w\<lparr>status_text := lit ''Please provide a MIME type for this record.'',
            status_color := lit ''var(--warn)''\<rparr>"
    by blast
  ultimately show ?thesis by simp
qed

text \<open>
  The claim as it was stated fails: with an empty media type, on a platform whose
  writer accepts the message, \<open>writeNfc\<close> does not fail. It has called the writer with a
  record whose media type is the empty string, and it resolves with that message.
\<close>

theorem writeNfc_empty_media_type_counterexample:
  "fst (writeNfc sample_platform (lit ''mime'') (lit ''hello'') (Val []) empty_app) =
     Inr \<lparr>records = [\<lparr>recordType = lit ''mime'', mediaType = Val [], record_id = Undefined,
                       data = Val (BufferData [0x68, 0x65, 0x6C, 0x6C, 0x6F])\<rparr>]\<rparr>
   \<and> nfc_writes (snd (writeNfc sample_platform (lit ''mime'') (lit ''hello'') (Val []) empty_app)) =
     [\<lparr>records = [\<lparr>recordType = lit ''mime'', mediaType = Val [], record_id = Undefined,
                       data = Val (BufferData [0x68, 0x65, 0x6C, 0x6C, 0x6F])\<rparr>]\<rparr>]"
  by (simp add: writeNfc_def writer_write_def build_message_def default_null_def
        sample_platform_def ascii_encode_def empty_app_def lit_def Let_def)

text \<open>
  Claim C7. The message of \<open>writeMultiDemo\<close> has exactly three records, in the order
  text, url, mime; the mime record has the media type \<open>text/plain\<close> and the encoded
  text \<open>sample mime payload\<close> as data. On a platform that has the reader, every call
  hands exactly this message to the platform writer, whatever was written before, so
  that two calls in a row write it twice; and the call resolves with this message when
  the writer accepts it.
\<close>

theorem writeMultiDemo_fixed_message:
  "demo_message p =
     \<lparr>records =
        [\<lparr>recordType = lit ''text'', mediaType = Undefined, record_id = Undefined,
          data = Val (StringData (lit ''Hello from Web NFC '' @ [0xD83D, 0xDC4B]))\<rparr>,
         \<lparr>recordType = lit ''url'', mediaType = Undefined, record_id = Undefined,
          data = Val (StringData (lit ''https://developer.mozilla.org/docs/Web/API/Web_NFC_API''))\<rparr>,
         \<lparr>recordType = lit ''mime'', mediaType = Val (lit ''text/plain''), record_id = Undefined,
          data = Val (BufferData (text_encode p (lit ''sample mime payload'')))\<rparr>]\<rparr>
   \<and> length (records (demo_message p)) = 3
   \<and> map recordType (records (demo_message p)) = [lit ''text'', lit ''url'', lit ''mime'']
   \<and> (has_NDEFReader p \<longrightarrow>
        nfc_writes (snd (writeMultiDemo p w)) = nfc_writes w @ [demo_message p]
        \<and> nfc_writes (snd (writeMultiDemo p (snd (writeMultiDemo p w)))) =
            nfc_writes w @ [demo_message p, demo_message p]
        \<and> (ndef_write p (nfc_writes w) (demo_message p) = None \<longrightarrow>
             fst (writeMultiDemo p w) = Inr (demo_message p))
        \<and> (\<forall>e. ndef_write p (nfc_writes w) (demo_message p) = Some e \<longrightarrow>
             fst (writeMultiDemo p w) = Inl e))"
proof -
  have "demo_message p =
     \<lparr>records =
        [\<lparr>recordType = lit ''text'', mediaType = Undefined, record_id = Undefined,
          data = Val (StringData (lit ''Hello from Web NFC '' @ [0xD83D, 0xDC4B]))\<rparr>,
         \<lparr>recordType = lit ''url'', mediaType = Undefined, record_id = Undefined,
          data = Val (StringData (lit ''https://developer.mozilla.org/docs/Web/API/Web_NFC_API''))\<rparr>,
         \<lparr>recordType = lit ''mime'', mediaType = Val (lit ''text/plain''), record_id = Undefined,
          data = Val (BufferData (text_encode p (lit ''sample mime payload'')))\<rparr>]\<rparr>"
    by (simp only: demo_message_def)
  moreover have "length (records (demo_message p)) = 3"
    by (simp add: demo_message_def)
  moreover have "map recordType (records (demo_message p)) = [lit ''text'', lit ''url'', lit ''mime'']"
    by (simp add: demo_message_def)
  moreover have "nfc_writes (snd (writeMultiDemo p w)) = nfc_writes w @ [demo_message p]"
    if "has_NDEFReader p" for w
    using that by (simp add: writeMultiDemo_result)
  moreover have "fst (writeMultiDemo p w) = Inr (demo_message p)"
    if "has_NDEFReader p" "ndef_write p (nfc_writes w) (demo_message p) = None"
    using that by (simp add: writeMultiDemo_result)
  moreover have "fst (writeMultiDemo p w) = Inl e"
    if "has_NDEFReader p" "ndef_write p (nfc_writes w) (demo_message p) = Some e" for e
    using that by (simp add: writeMultiDemo_result)
  ultimately show ?thesis
    by simp
qed

theorem writeMultiDemo_fixed_message_witness:
  "writeMultiDemo sample_platform empty_app =
     (Inr (demo_message sample_platform),
      empty_app\<lparr>nfc_writes := [demo_message sample_platform]\<rparr>)
   \<and> text_encode sample_platform (lit ''sample mime payload'') =
       [0x73, 0x61, 0x6D, 0x70, 0x6C, 0x65, 0x20, 0x6D, 0x69, 0x6D, 0x65, 0x20,
        0x70, 0x61, 0x79, 0x6C, 0x6F, 0x61, 0x64]"
proof -
  have h1: "has_NDEFReader sample_platform"
    by (simp add: sample_platform_def)
  have h2: "ndef_write sample_platform (nfc_writes empty_app) (demo_message sample_platform) = None"
    by (simp add: sample_platform_def)
  from writeMultiDemo_fixed_message [of sample_platform empty_app] h1 h2
  have "fst (writeMultiDemo sample_platform empty_app) = Inr (demo_message sample_platform)"
    and "nfc_writes (snd (writeMultiDemo sample_platform empty_app)) =
           nfc_writes empty_app @ [demo_message sample_platform]"
    by blast+
  moreover have "snd (writeMultiDemo sample_platform empty_app) =
      empty_app\<lparr>nfc_writes := nfc_writes (snd (writeMultiDemo sample_platform empty_app))\<rparr>"
    by (simp add: writeMultiDemo_def writer_write_def Let_def h1 split: option.splits)
  ultimately have "writeMultiDemo sample_platform empty_app =
     (Inr (demo_message sample_platform),
      empty_app\<lparr>nfc_writes := [demo_message sample_platform]\<rparr>)"
    by (simp add: prod_eq_iff empty_app_def)
  moreover have "text_encode sample_platform (lit ''sample mime payload'') =
       [0x73, 0x61, 0x6D, 0x70, 0x6C, 0x65, 0x20, 0x6D, 0x69, 0x6D, 0x65, 0x20,
        0x70, 0x61, 0x79, 0x6C, 0x6F, 0x61, 0x64]"
    by (simp add: sample_platform_def ascii_encode_def lit_def)
  ultimately show ?thesis by simp
qed

text \<open>
  Claim C8. \<open>stopScan\<close> never throws. A second call in a row changes nothing; a call
  with a handle that was aborted before changes nothing; and a call with no handle
  (\<open>undefined\<close> or \<open>null\<close>, as before any scan was started) does nothing.
\<close>

theorem stopScan_idempotent_total:
  "(\<exists>c'. stopScan c = Inr c')
   \<and> (\<forall>c'. stopScan c = Inr c' \<longrightarrow> stopScan c' = Inr c')
   \<and> stopScan Undefined = Inr Undefined
   \<and> stopScan Null = Inr Null
   \<and> (\<forall>k. aborted k \<longrightarrow> stopScan (Val k) = Inr (Val k))"
  by (cases c) (auto simp: stopScan_def abort_def)

theorem stopScan_idempotent_total_witness:
  "stopScan (Val \<lparr>aborted = False, abort_events = 0\<rparr>) = Inr (Val \<lparr>aborted = True, abort_events = 1\<rparr>)
   \<and> stopScan (Val \<lparr>aborted = True, abort_events = 1\<rparr>) = Inr (Val \<lparr>aborted = True, abort_events = 1\<rparr>)"
proof -
  have first: "stopScan (Val \<lparr>aborted = False, abort_events = 0\<rparr>)
                 = Inr (Val \<lparr>aborted = True, abort_events = 1\<rparr>)"
    by (simp add: stopScan_def abort_def)
  with stopScan_idempotent_total [of "Val \<lparr>aborted = False, abort_events = 0\<rparr>"]
  have "stopScan (Val \<lparr>aborted = True, abort_events = 1\<rparr>)
          = Inr (Val \<lparr>aborted = True, abort_events = 1\<rparr>)"
    by blast
  with first show ?thesis by simp
qed

lemma map_result_decodeRecord:
  "map_result (decodeRecord p) rs = Inr (map (codec_decode p) rs)"
  by (rule map_result_total) (simp add: decodeRecord_codec)

lemma reading_handler_calls:
  "reading_handler p onReading event st =
     Inr (st\<lparr>sink :=
            onReading
              \<lparr>records = map (codec_decode p) (records (message event)),
               \<dots> = ndef_message.more (message event)\<rparr>
              (serialNumber event) (target_tech event) (sink st)\<rparr>)"
  by (simp add: reading_handler_def map_result_decodeRecord)

lemma startScan_reader:
  "startScan p signal onReading = Inr ndef \<Longrightarrow>
   onreading ndef = reading_handler p onReading \<and> onreadingerror ndef = readingerror_handler"
  by (auto simp: startScan_def split: if_splits option.splits)

lemma deliver_readings:
  "onreading ndef = reading_handler p onReading \<Longrightarrow>
   deliver ndef (map Reading events) st =
     st\<lparr>sink :=
        fold (\<lambda>event.
                onReading
                  \<lparr>records = map (codec_decode p) (records (message event)),
                   \<dots> = ndef_message.more (message event)\<rparr>
                  (serialNumber event) (target_tech event))
          events (sink st)\<rparr>"
  by (induction events arbitrary: st) (simp_all add: dispatch_def reading_handler_calls)

lemma fold_record_call:
  "fold (\<lambda>event. record_call (f event) (g event) (h event)) events calls =
     calls @ map (\<lambda>event. (f event, g event, h event)) events"
  by (induction events arbitrary: calls) (simp_all add: record_call_def)

text \<open>
  Claim C9. On the reader of a scan that \<open>startScan\<close> has started, a sequence of reading
  events invokes \<open>onReading\<close> exactly once per event, in the order of delivery: the
  state of the callback is the fold of the callback over the events, each call getting
  the message with its records replaced by their decoded forms in the original order
  (every one the result of \<open>decodeRecord\<close>), the serial number of the event, and the
  \<^verbatim>\<open>tech\<close> of the event's target when the event has a target (\<^verbatim>\<open>undefined\<close> when it has
  none). Nothing escapes a handler. With the callback that records its calls, the calls
  recorded are one per event, in order, and the call for the \<open>i\<close>-th event carries the
  serial number of that event and the \<^verbatim>\<open>tech\<close> of its target.
\<close>

theorem startScan_onReading_each_event:
  assumes "startScan p signal onReading = Inr ndef"
    and "startScan p signal record_call = Inr rec_ndef"
  shows "deliver ndef (map Reading events) st =
     st\<lparr>sink :=
        fold (\<lambda>event.
                onReading
                  \<lparr>records = map (codec_decode p) (records (message event)),
                   \<dots> = ndef_message.more (message event)\<rparr>
                  (serialNumber event)
                  (case target event of Val t \<Rightarrow> tech t | _ \<Rightarrow> Undefined))
          events (sink st)\<rparr>
   \<and> (\<forall>event \<in> set events. \<forall>r \<in> set (records (message event)).
         decodeRecord p r = Inr (codec_decode p r))
   \<and> sink (deliver rec_ndef (map Reading events) rst) =
       sink rst @
       map (\<lambda>event.
              (\<lparr>records = map (codec_decode p) (records (message event)),
                \<dots> = ndef_message.more (message event)\<rparr>,
               serialNumber event,
               (case target event of Val t \<Rightarrow> tech t | _ \<Rightarrow> Undefined)))
         events
   \<and> uncaught (deliver rec_ndef (map Reading events) rst) = uncaught rst
   \<and> length (sink (deliver rec_ndef (map Reading events) rst)) = length (sink rst) + length events
   \<and> (\<forall>i < length events.
         fst (snd (sink (deliver rec_ndef (map Reading events) rst) ! (length (sink rst) + i)))
           = serialNumber (events ! i)
         \<and> (\<forall>t. target (events ! i) = Val t \<longrightarrow>
               snd (snd (sink (deliver rec_ndef (map Reading events) rst) ! (length (sink rst) + i)))
                 = tech t))"
proof -
  from assms(1) have a: "onreading ndef = reading_handler p onReading"
    by (simp add: startScan_reader)
  from assms(2) have b: "onreading rec_ndef = reading_handler p record_call"
    by (simp add: startScan_reader)
  have general: "deliver ndef (map Reading events) st =
     st\<lparr>sink :=
        fold (\<lambda>event.
                onReading
                  \<lparr>records = map (codec_decode p) (records (message event)),
                   \<dots> = ndef_message.more (message event)\<rparr>
                  (serialNumber event)
                  (case target event of Val t \<Rightarrow> tech t | _ \<Rightarrow> Undefined))
          events (sink st)\<rparr>"
    using deliver_readings [OF a, of events st] by (simp add: target_tech_def)
  have calls: "sink (deliver rec_ndef (map Reading events) rst) =
       sink rst @
       map (\<lambda>event.
              (\<lparr>records = map (codec_decode p) (records (message event)),
                \<dots> = ndef_message.more (message event)\<rparr>,
               serialNumber event,
               (case target event of Val t \<Rightarrow> tech t | _ \<Rightarrow> Undefined)))
         events"
    by (simp add: deliver_readings [OF b] fold_record_call target_tech_def)
  have quiet: "uncaught (deliver rec_ndef (map Reading events) rst) = uncaught rst"
    by (simp add: deliver_readings [OF b])
  have nth: "fst (snd (sink (deliver rec_ndef (map Reading events) rst) ! (length (sink rst) + i)))
           = serialNumber (events ! i)
         \<and> (\<forall>t. target (events ! i) = Val t \<longrightarrow>
               snd (snd (sink (deliver rec_ndef (map Reading events) rst) ! (length (sink rst) + i)))
                 = tech t)"
    if "i < length events" for i
    using that by (simp add: calls nth_append)
  from general calls quiet nth show ?thesis
    by (simp add: decodeRecord_codec)
qed

theorem startScan_onReading_each_event_witness:
  "startScan sample_platform \<lparr>aborted = False, abort_events = 0\<rparr> record_call =
     Inr \<lparr>onreadingerror = readingerror_handler,
          onreading = reading_handler sample_platform record_call\<rparr>
   \<and> sink (deliver
        \<lparr>onreadingerror = readingerror_handler,
         onreading = reading_handler sample_platform record_call\<rparr>
        [Reading \<lparr>message = \<lparr>records =
                    [\<lparr>recordType = lit ''text'', mediaType = Null, record_id = Null,
                      data = Val [0x48, 0x69]\<rparr>]\<rparr>,
                  serialNumber = Val (lit ''04:a2''), target = Null\<rparr>,
         Reading \<lparr>message = \<lparr>records =
                    [\<lparr>recordType = lit ''url'', mediaType = Null, record_id = Null,
                      data = Val [0x61]\<rparr>,
                     \<lparr>recordType = lit ''mime'', mediaType = Val (lit ''image/png''),
                      record_id = Val (lit ''1''), data = Val [0x7B, 0x7D]\<rparr>,
                     \<lparr>recordType = lit ''empty'', mediaType = Null, record_id = Null,
                      data = Null\<rparr>]\<rparr>,
                  serialNumber = Undefined, target = Val \<lparr>tech = Val (lit ''NFC-A'')\<rparr>\<rparr>]
        \<lparr>console_lines = [], uncaught = [], sink = []\<rparr>)
     = [(\<lparr>records =
           [\<lparr>recordType = lit ''text'', mediaType = Null, record_id = Null,
             payload = Val (lit ''Hi'')\<rparr>]\<rparr>,
         Val (lit ''04:a2''), Undefined),
        (\<lparr>records =
           [\<lparr>recordType = lit ''url'', mediaType = Null, record_id = Null,
             payload = Val (lit ''a'')\<rparr>,
            \<lparr>recordType = lit ''mime'', mediaType = Val (lit ''image/png''),
             record_id = Val (lit ''1''), payload = Val (lit ''[Hex] 7B:7D'')\<rparr>,
            \<lparr>recordType = lit ''empty'', mediaType = Null, record_id = Null,
             payload = Undefined\<rparr>]\<rparr>,
         Undefined, Val (lit ''NFC-A''))]"
proof -
  let ?ndef = "\<lparr>onreadingerror = readingerror_handler,
         onreading = reading_handler sample_platform record_call\<rparr>"
  have started: "startScan sample_platform \<lparr>aborted = False, abort_events = 0\<rparr> record_call =
     Inr ?ndef"
    by (simp add: startScan_def sample_platform_def)
  have r1: "codec_decode sample_platform
       \<lparr>recordType = lit ''text'', mediaType = Null, record_id = Null, data = Val [0x48, 0x69]\<rparr>
     = \<lparr>recordType = lit ''text'', mediaType = Null, record_id = Null, payload = Val (lit ''Hi'')\<rparr>"
    by (simp add: codec_decode_def codec_payload_def is_text_record_def or_null_def
          sample_platform_def TextDecoder_decode_def utf16_units_def lit_def)
  have r2: "codec_decode sample_platform
       \<lparr>recordType = lit ''url'', mediaType = Null, record_id = Null, data = Val [0x61]\<rparr>
     = \<lparr>recordType = lit ''url'', mediaType = Null, record_id = Null, payload = Val (lit ''a'')\<rparr>"
    by (simp add: codec_decode_def codec_payload_def is_text_record_def or_null_def
          sample_platform_def TextDecoder_decode_def utf16_units_def lit_def)
  have r3: "codec_decode sample_platform
       \<lparr>recordType = lit ''mime'', mediaType = Val (lit ''image/png''),
        record_id = Val (lit ''1''), data = Val [0x7B, 0x7D]\<rparr>
     = \<lparr>recordType = lit ''mime'', mediaType = Val (lit ''image/png''),
        record_id = Val (lit ''1''), payload = Val (lit ''[Hex] 7B:7D'')\<rparr>"
    by (simp add: codec_decode_def codec_payload_def is_text_record_def or_null_def
          startsWith_def upper_hex_pair_def upper_hex_digit_def upper_hex_code_def lit_def)
  have r4: "codec_decode sample_platform
       \<lparr>recordType = lit ''empty'', mediaType = Null, record_id = Null, data = Null\<rparr>
     = \<lparr>recordType = lit ''empty'', mediaType = Null, record_id = Null, payload = Undefined\<rparr>"
    by (simp add: codec_decode_def codec_payload_def or_null_def)
  let ?evs = "[\<lparr>message = \<lparr>records =
                    [\<lparr>recordType = lit ''text'', mediaType = Null, record_id = Null,
                      data = Val [0x48, 0x69]\<rparr>]\<rparr>,
                  serialNumber = Val (lit ''04:a2''), target = Null\<rparr>,
                \<lparr>message = \<lparr>records =
                    [\<lparr>recordType = lit ''url'', mediaType = Null, record_id = Null,
                      data = Val [0x61]\<rparr>,
                     \<lparr>recordType = lit ''mime'', mediaType = Val (lit ''image/png''),
                      record_id = Val (lit ''1''), data = Val [0x7B, 0x7D]\<rparr>,
                     \<lparr>recordType = lit ''empty'', mediaType = Null, record_id = Null,
                      data = Null\<rparr>]\<rparr>,
                  serialNumber = Undefined, target = Val \<lparr>tech = Val (lit ''NFC-A'')\<rparr>\<rparr>]"
  let ?st0 = "\<lparr>console_lines = [], uncaught = [], sink = []\<rparr>"
  have "sink (deliver ?ndef (map Reading ?evs) ?st0) =
       sink ?st0 @
       map (\<lambda>event.
              (\<lparr>records = map (codec_decode sample_platform) (records (message event)),
                \<dots> = ndef_message.more (message event)\<rparr>,
               serialNumber event,
               (case target event of Val t \<Rightarrow> tech t | _ \<Rightarrow> Undefined)))
         ?evs"
    using startScan_onReading_each_event
      [OF started started, where events = ?evs and rst = ?st0 and st = ?st0]
    by blast
  then have "sink (deliver ?ndef (map Reading ?evs) ?st0)
     = [(\<lparr>records =
           [\<lparr>recordType = lit ''text'', mediaType = Null, record_id = Null,
             payload = Val (lit ''Hi'')\<rparr>]\<rparr>,
         Val (lit ''04:a2''), Undefined),
        (\<lparr>records =
           [\<lparr>recordType = lit ''url'', mediaType = Null, record_id = Null,
             payload = Val (lit ''a'')\<rparr>,
            \<lparr>recordType = lit ''mime'', mediaType = Val (lit ''image/png''),
             record_id = Val (lit ''1''), payload = Val (lit ''[Hex] 7B:7D'')\<rparr>,
            \<lparr>recordType = lit ''empty'', mediaType = Null, record_id = Null,
             payload = Undefined\<rparr>]\<rparr>,
         Undefined, Val (lit ''NFC-A''))]"
    by (simp add: r1 r2 r3 r4)
  with started show ?thesis by simp
qed

end
